theory Spec2Isabelle
  imports Main
begin

section \<open>Fitness studio booking service (fitnessApi.py)\<close>

text \<open>
  The module keeps two process-wide lists, \<open>classes\<close> and \<open>bookings\<close>, and serves three
  routes over them: \<open>get_classes\<close>, \<open>book_class\<close> and \<open>get_bookings\<close>. The lists are the
  fields of an explicit \<open>store\<close> that every handler receives and returns. An
  \<open>HTTPException\<close> raised by a handler is the \<open>Inl\<close> branch of its result. Python's
  integers are unbounded, so every number is an \<open>int\<close>. The calls to \<open>logger.info\<close> write
  to the logging sink only and are left out.
\<close>

subsection \<open>Aware datetimes\<close>

text \<open>
  A \<open>datetime\<close> carries its local wall-clock fields and the fixed-offset \<open>tzinfo\<close> attached
  to it, of which the handlers read the offset east of UTC (in seconds) and the
  abbreviation. Field \<open>second\<close> and the others carry Python's names.
\<close>

record datetime =
  year :: int
  month :: int
  day :: int
  hour :: int
  minute :: int
  second :: int
  microsecond :: int
  utcoffset :: int
  tzname :: string

text \<open>
  A time zone, as \<open>pytz.timezone\<close> returns it, is used through \<open>fromutc\<close> only: it decides
  from a UTC instant which offset and abbreviation are in force. The instant is counted in
  seconds from the start of proleptic Gregorian day 0 (day 1 is 0001-01-01).
\<close>

type_synonym tzinfo = "int \<Rightarrow> int \<times> string"

text \<open>
  The system's timezone database is not part of the module: \<open>pytz.timezone\<close> is a
  parameter of the model, \<open>None\<close> standing for every exception the lookup raises.
\<close>

type_synonym tzdb = "string \<Rightarrow> tzinfo option"

text \<open>The calendar arithmetic of the \<open>datetime\<close> module (\<open>_ymd2ord\<close>, \<open>_ord2ymd\<close>).\<close>

definition is_leap :: "int \<Rightarrow> bool" where
  "is_leap y = (y mod 4 = 0 \<and> (y mod 100 \<noteq> 0 \<or> y mod 400 = 0))"

definition days_before_year :: "int \<Rightarrow> int" where
  "days_before_year y = (let p = y - 1 in p * 365 + p div 4 - p div 100 + p div 400)"

definition DAYS_IN_MONTH :: "int list" where
  "DAYS_IN_MONTH = [-1, 31, 28, 31, 30, 31, 30, 31, 31, 30, 31, 30, 31]"

definition DAYS_BEFORE_MONTH :: "int list" where
  "DAYS_BEFORE_MONTH = [-1, 0, 31, 59, 90, 120, 151, 181, 212, 243, 273, 304, 334]"

definition days_before_month :: "int \<Rightarrow> int \<Rightarrow> int" where
  "days_before_month y m =
     DAYS_BEFORE_MONTH ! nat m + (if m > 2 \<and> is_leap y then 1 else 0)"

definition ymd2ord :: "int \<Rightarrow> int \<Rightarrow> int \<Rightarrow> int" where
  "ymd2ord y m d = days_before_year y + days_before_month y m + d"

definition ord2ymd :: "int \<Rightarrow> int \<times> int \<times> int" where
  "ord2ymd n0 =
     (let n = n0 - 1;
          n400 = n div 146097; n = n mod 146097;
          y = n400 * 400 + 1;
          n100 = n div 36524; n = n mod 36524;
          n4 = n div 1461; n = n mod 1461;
          n1 = n div 365; n = n mod 365;
          y = y + n100 * 100 + n4 * 4 + n1
      in if n1 = 4 \<or> n100 = 4 then (y - 1, 12, 31)
         else
           let leapyear = (n1 = 3 \<and> (n4 \<noteq> 24 \<or> n100 = 3));
               m = (n + 50) div 32;
               preceding = DAYS_BEFORE_MONTH ! nat m + (if m > 2 \<and> leapyear then 1 else 0)
           in if preceding > n
              then (y, m - 1,
                    n - (preceding - (DAYS_IN_MONTH ! nat (m - 1)
                           + (if m - 1 = 2 \<and> leapyear then 1 else 0))) + 1)
              else (y, m, n - preceding + 1))"

definition MAXORDINAL :: int where
  "MAXORDINAL = 3652059"

definition toordinal :: "datetime \<Rightarrow> int" where
  "toordinal dt = ymd2ord (year dt) (month dt) (day dt)"

text \<open>
  Seconds from the start of day 0 to the wall-clock fields, and the absolute instant they
  denote once the attached offset is taken off.
\<close>

definition wall_seconds :: "datetime \<Rightarrow> int" where
  "wall_seconds dt = toordinal dt * 86400 + hour dt * 3600 + minute dt * 60 + second dt"

definition instant :: "datetime \<Rightarrow> int" where
  "instant dt = wall_seconds dt - utcoffset dt"

text \<open>
  \<open>datetime.__add__\<close> for a \<open>timedelta\<close> of whole seconds: the sum is normalised to days and
  seconds, the date is rebuilt from the ordinal, and a date outside years 1 to 9999 raises
  \<open>OverflowError\<close> (\<open>None\<close>). The attached \<open>tzinfo\<close> and the microseconds are kept.
\<close>

definition add_seconds :: "datetime \<Rightarrow> int \<Rightarrow> datetime option" where
  "add_seconds dt k =
     (let total = wall_seconds dt + k;
          days = total div 86400;
          secs = total mod 86400
      in if 0 < days \<and> days \<le> MAXORDINAL
         then (case ord2ymd days of (y, m, d) \<Rightarrow>
                 Some (dt\<lparr>year := y, month := m, day := d,
                          hour := secs div 3600,
                          minute := secs mod 3600 div 60,
                          second := secs mod 3600 mod 60\<rparr>))
         else None)"

text \<open>
  \<open>dt.astimezone(tz)\<close>: subtract the attached offset to reach UTC, then \<open>tz.fromutc\<close> adds
  the offset the zone has at that instant and attaches the matching \<open>tzinfo\<close>. (When
  \<open>tz\<close> is the very object attached to \<open>dt\<close>, Python returns \<open>dt\<close> itself; a zone returned
  by \<open>pytz.timezone\<close> is never the object that \<open>localize\<close> attached to the seeded schedules,
  and the shortcut is not modelled.)
\<close>

definition astimezone :: "datetime \<Rightarrow> tzinfo \<Rightarrow> datetime option" where
  "astimezone dt tz =
     (case add_seconds dt (- utcoffset dt) of
        None \<Rightarrow> None
      | Some utc \<Rightarrow>
          (case tz (wall_seconds utc) of (off, abbr) \<Rightarrow>
             (case add_seconds utc off of
                None \<Rightarrow> None
              | Some loc \<Rightarrow> Some (loc\<lparr>utcoffset := off, tzname := abbr\<rparr>))))"

text \<open>\<open>strftime("%Y-%m-%d %H:%M:%S %Z%z")\<close>, with \<open>%Y\<close> as four digits (years 1000 to 9999).\<close>

definition digit :: "int \<Rightarrow> char" where
  "digit d = ''0123456789'' ! nat d"

definition pad2 :: "int \<Rightarrow> string" where
  "pad2 n = [digit (n div 10), digit (n mod 10)]"

definition pad4 :: "int \<Rightarrow> string" where
  "pad4 n = pad2 (n div 100) @ pad2 (n mod 100)"

definition format_z :: "int \<Rightarrow> string" where
  "format_z off =
     (let sign = (if off < 0 then CHR ''-'' else CHR ''+'');
          a = (if off < 0 then - off else off);
          h = a div 3600; rest = a mod 3600;
          m = rest div 60; s = rest mod 60
      in if s \<noteq> 0 then sign # pad2 h @ pad2 m @ pad2 s
         else sign # pad2 h @ pad2 m)"

definition strftime :: "datetime \<Rightarrow> string" where
  "strftime dt =
     pad4 (year dt) @ ''-'' @ pad2 (month dt) @ ''-'' @ pad2 (day dt) @ '' '' @
     pad2 (hour dt) @ '':'' @ pad2 (minute dt) @ '':'' @ pad2 (second dt) @ '' '' @
     tzname dt @ format_z (utcoffset dt)"

subsection \<open>Data models\<close>

text \<open>
  The fields keep the names of the pydantic models; \<open>id\<close> is a constant of HOL, and
  \<open>Booking\<close> shares three names with \<open>BookingRequest\<close>, so those carry a prefix.
\<close>

record FitnessClass =
  c_id :: int
  name :: string
  instructor :: string
  schedule :: datetime
  capacity :: int
  available_slots :: int

record BookingRequest =
  class_id :: int
  client_name :: string
  client_email :: string

record Booking =
  b_id :: int
  b_class_id :: int
  class_name :: string
  b_client_name :: string
  b_client_email :: string
  booking_time :: datetime

text \<open>One entry of the list \<open>get_classes\<close> returns (a dict with these six keys).\<close>

record ClassView =
  v_id :: int
  v_name :: string
  v_instructor :: string
  v_schedule :: string
  v_capacity :: int
  v_available_slots :: int

record store =
  classes :: "FitnessClass list"
  bookings :: "Booking list"

datatype http_error = HTTPException int string

subsection \<open>The seeded store\<close>

text \<open>
  \<open>IST.localize(datetime(2025, 8, 22, h, 0))\<close> attaches the \<open>tzinfo\<close> that
  \<open>Asia/Kolkata\<close> has on that date: India Standard Time, five and a half hours east of UTC.
\<close>

definition IST_localize :: "int \<Rightarrow> int \<Rightarrow> int \<Rightarrow> int \<Rightarrow> int \<Rightarrow> datetime" where
  "IST_localize y mo d h mi =
     \<lparr>year = y, month = mo, day = d, hour = h, minute = mi, second = 0, microsecond = 0,
      utcoffset = 19800, tzname = ''IST''\<rparr>"

definition seeded :: store where
  "seeded =
     \<lparr>classes =
        [\<lparr>c_id = 1, name = ''Yoga'', instructor = ''Alice'',
          schedule = IST_localize 2025 8 22 8 0, capacity = 10, available_slots = 10\<rparr>,
         \<lparr>c_id = 2, name = ''Zumba'', instructor = ''Bob'',
          schedule = IST_localize 2025 8 22 10 0, capacity = 12, available_slots = 12\<rparr>,
         \<lparr>c_id = 3, name = ''HIIT'', instructor = ''Charlie'',
          schedule = IST_localize 2025 8 22 18 0, capacity = 15, available_slots = 15\<rparr>],
      bookings = []\<rparr>"

subsection \<open>The routes\<close>

definition class_view :: "FitnessClass \<Rightarrow> datetime \<Rightarrow> ClassView" where
  "class_view c converted_time =
     \<lparr>v_id = c_id c, v_name = name c, v_instructor = instructor c,
      v_schedule = strftime converted_time,
      v_capacity = capacity c, v_available_slots = available_slots c\<rparr>"

text \<open>
  The loop of \<open>get_classes\<close>. An \<open>OverflowError\<close> of the conversion leaves the loop
  (\<open>None\<close>); the global handler turns it into status 500.
\<close>

fun get_classes_loop :: "tzinfo \<Rightarrow> FitnessClass list \<Rightarrow> ClassView list option" where
  "get_classes_loop target_tz [] = Some []"
| "get_classes_loop target_tz (c # cs) =
     (case astimezone (schedule c) target_tz of
        None \<Rightarrow> None
      | Some converted_time \<Rightarrow>
          (case get_classes_loop target_tz cs of
             None \<Rightarrow> None
           | Some response \<Rightarrow> Some (class_view c converted_time # response)))"

definition get_classes :: "tzdb \<Rightarrow> string \<Rightarrow> store \<Rightarrow> (http_error + ClassView list) \<times> store" where
  "get_classes pytz_timezone timezone s =
     (case pytz_timezone timezone of
        None \<Rightarrow> (Inl (HTTPException 400 ''Invalid timezone''), s)
      | Some target_tz \<Rightarrow>
          (case get_classes_loop target_tz (classes s) of
             None \<Rightarrow> (Inl (HTTPException 500 ''Internal server error. Please try again later.''), s)
           | Some response \<Rightarrow> (Inr response, s)))"

text \<open>
  \<open>fitness_class.available_slots -= 1\<close> writes to the object that \<open>next(...)\<close> found, the
  first element of \<open>classes\<close> with the requested id.
\<close>

fun decrement_slots :: "int \<Rightarrow> FitnessClass list \<Rightarrow> FitnessClass list" where
  "decrement_slots cid [] = []"
| "decrement_slots cid (c # cs) =
     (if c_id c = cid then c\<lparr>available_slots := available_slots c - 1\<rparr> # cs
      else c # decrement_slots cid cs)"

text \<open>\<open>datetime.now(pytz.utc)\<close>: the clock's reading of the UTC wall clock, tagged UTC.\<close>

definition now_utc :: "datetime \<Rightarrow> datetime" where
  "now_utc clock = clock\<lparr>utcoffset := 0, tzname := ''UTC''\<rparr>"

definition book_class :: "BookingRequest \<Rightarrow> datetime \<Rightarrow> store \<Rightarrow> (http_error + Booking) \<times> store" where
  "book_class request clock s =
     (case find (\<lambda>c. c_id c = class_id request) (classes s) of
        None \<Rightarrow> (Inl (HTTPException 404 ''Class not found''), s)
      | Some fitness_class \<Rightarrow>
          if available_slots fitness_class \<le> 0
          then (Inl (HTTPException 400 ''No slots available''), s)
          else if list_ex (\<lambda>b. b_client_email b = client_email request
                              \<and> b_class_id b = class_id request) (bookings s)
          then (Inl (HTTPException 400 ''Already booked for this class''), s)
          else
            let booking_id = int (length (bookings s)) + 1;
                new_booking =
                  \<lparr>b_id = booking_id,
                   b_class_id = c_id fitness_class,
                   class_name = name fitness_class,
                   b_client_name = client_name request,
                   b_client_email = client_email request,
                   booking_time = now_utc clock\<rparr>
            in (Inr new_booking,
                s\<lparr>bookings := bookings s @ [new_booking],
                  classes := decrement_slots (class_id request) (classes s)\<rparr>))"

text \<open>
  \<open>not email\<close> holds for \<open>None\<close> and for the empty string; the \<open>EmailStr\<close> validation of the
  query parameter never lets an empty string through.
\<close>

definition get_bookings :: "string option \<Rightarrow> store \<Rightarrow> Booking list \<times> store" where
  "get_bookings email s =
     (case email of
        None \<Rightarrow> (bookings s, s)
      | Some e \<Rightarrow>
          if e = [] then (bookings s, s)
          else (filter (\<lambda>b. b_client_email b = e) (bookings s), s))"

subsection \<open>Reachable states\<close>

datatype operation =
    ListClasses string
  | CreateBooking BookingRequest datetime
  | QueryBookings "string option"

fun step :: "tzdb \<Rightarrow> store \<Rightarrow> operation \<Rightarrow> store" where
  "step db s (ListClasses timezone) = snd (get_classes db timezone s)"
| "step db s (CreateBooking request clock) = snd (book_class request clock s)"
| "step db s (QueryBookings email) = snd (get_bookings email s)"

definition run :: "tzdb \<Rightarrow> operation list \<Rightarrow> store" where
  "run db ops = foldl (step db) seeded ops"

subsection \<open>Sample inputs\<close>

text \<open>
  A small timezone database, a clock reading and a few requests, on which the theorems
  below are instantiated. \<open>utc\<close> is \<open>pytz.utc\<close>, and \<open>ist\<close> the zone of India as it stands
  in 2025.
\<close>

definition utc :: tzinfo where
  "utc = (\<lambda>t. (0, ''UTC''))"

definition ist :: tzinfo where
  "ist = (\<lambda>t. (19800, ''IST''))"

definition sample_tzdb :: tzdb where
  "sample_tzdb zone =
     (if zone = ''UTC'' then Some utc
      else if zone = ''Asia/Kolkata'' then Some ist
      else None)"

definition sample_clock :: datetime where
  "sample_clock =
     \<lparr>year = 2025, month = 8, day = 20, hour = 9, minute = 15, second = 30,
      microsecond = 250000, utcoffset = 0, tzname = []\<rparr>"

definition sample_request :: "int \<Rightarrow> string \<Rightarrow> BookingRequest" where
  "sample_request cid email = \<lparr>class_id = cid, client_name = ''Asha'', client_email = email\<rparr>"

definition sample_ops :: "operation list" where
  "sample_ops =
     [CreateBooking (sample_request 1 ''a@x.com'') sample_clock,
      ListClasses ''UTC'',
      CreateBooking (sample_request 2 ''a@x.com'') sample_clock,
      QueryBookings None]"

definition sample_full_ops :: "operation list" where
  "sample_full_ops =
     map (\<lambda>email. CreateBooking (sample_request 1 email) sample_clock)
       [''a@x.com'', ''b@x.com'', ''c@x.com'', ''d@x.com'', ''e@x.com'',
        ''f@x.com'', ''g@x.com'', ''h@x.com'', ''i@x.com'', ''j@x.com'']"

definition sample_booking :: Booking where
  "sample_booking =
     \<lparr>b_id = 1, b_class_id = 1, class_name = ''Yoga'', b_client_name = ''Asha'',
      b_client_email = ''a@x.com'',
      booking_time = \<lparr>year = 2025, month = 8, day = 20, hour = 9, minute = 15, second = 30,
                      microsecond = 250000, utcoffset = 0, tzname = ''UTC''\<rparr>\<rparr>"

definition sample_booked :: store where
  "sample_booked =
     \<lparr>classes =
        [\<lparr>c_id = 1, name = ''Yoga'', instructor = ''Alice'',
          schedule = IST_localize 2025 8 22 8 0, capacity = 10, available_slots = 9\<rparr>,
         \<lparr>c_id = 2, name = ''Zumba'', instructor = ''Bob'',
          schedule = IST_localize 2025 8 22 10 0, capacity = 12, available_slots = 12\<rparr>,
         \<lparr>c_id = 3, name = ''HIIT'', instructor = ''Charlie'',
          schedule = IST_localize 2025 8 22 18 0, capacity = 15, available_slots = 15\<rparr>],
      bookings = [sample_booking]\<rparr>"

section \<open>Properties\<close>

subsection \<open>Runs and the read-only routes\<close>

lemma run_Nil: "run db [] = seeded"
  by (simp add: run_def)

lemma run_snoc: "run db (ops @ [op]) = step db (run db ops) op"
  by (simp add: run_def)

lemma get_classes_store: "snd (get_classes db tz s) = s"
  by (simp add: get_classes_def split: option.splits)

lemma get_bookings_store: "snd (get_bookings email s) = s"
  by (simp add: get_bookings_def split: option.splits)

subsection \<open>The looked-up class and its decrement\<close>

lemma find_first_index:
  "find P xs = Some x \<Longrightarrow> \<exists>i<length xs. xs ! i = x \<and> P x \<and> (\<forall>j<i. \<not> P (xs ! j))"
proof (induction xs)
  case Nil
  then show ?case by simp
next
  case (Cons a xs)
  show ?case
  proof (cases "P a")
    case True
    with Cons.prems have "a = x" by simp
    with True have "(a # xs) ! 0 = x \<and> P x \<and> (\<forall>j<0. \<not> P ((a # xs) ! j))" by simp
    then show ?thesis by blast
  next
    case False
    with Cons.prems have "find P xs = Some x" by simp
    from Cons.IH [OF this] obtain i where
      i: "i < length xs" "xs ! i = x" "P x" "\<forall>j<i. \<not> P (xs ! j)"
      by blast
    have "\<forall>j<Suc i. \<not> P ((a # xs) ! j)"
    proof (intro allI impI)
      fix j assume "j < Suc i"
      then show "\<not> P ((a # xs) ! j)" using False i(4) by (cases j) auto
    qed
    with i have "Suc i < length (a # xs) \<and> (a # xs) ! Suc i = x \<and> P x
        \<and> (\<forall>j<Suc i. \<not> P ((a # xs) ! j))"
      by simp
    then show ?thesis by blast
  qed
qed

lemma decrement_slots_update:
  "i < length cs \<Longrightarrow> c_id (cs ! i) = cid \<Longrightarrow> \<forall>j<i. c_id (cs ! j) \<noteq> cid \<Longrightarrow>
   decrement_slots cid cs = cs[i := (cs ! i)\<lparr>available_slots := available_slots (cs ! i) - 1\<rparr>]"
proof (induction cs arbitrary: i)
  case Nil
  then show ?case by simp
next
  case (Cons a cs)
  show ?case
  proof (cases i)
    case 0
    with Cons.prems show ?thesis by simp
  next
    case (Suc k)
    with Cons.prems have a: "c_id a \<noteq> cid" by auto
    have "\<forall>j<k. c_id (cs ! j) \<noteq> cid"
    proof (intro allI impI)
      fix j assume "j < k"
      then have "Suc j < i" using Suc by simp
      with Cons.prems(3) have "c_id ((a # cs) ! Suc j) \<noteq> cid" by blast
      then show "c_id (cs ! j) \<noteq> cid" by simp
    qed
    with Cons.IH [of k] Cons.prems Suc have
      "decrement_slots cid cs = cs[k := (cs ! k)\<lparr>available_slots := available_slots (cs ! k) - 1\<rparr>]"
      by simp
    with a Suc show ?thesis by simp
  qed
qed

subsection \<open>The two outcomes of a booking\<close>

lemma book_class_success:
  assumes "book_class request clock s = (Inr b, s')"
  shows "\<exists>fc. find (\<lambda>c. c_id c = class_id request) (classes s) = Some fc
           \<and> 0 < available_slots fc
           \<and> \<not> list_ex (\<lambda>b. b_client_email b = client_email request
                              \<and> b_class_id b = class_id request) (bookings s)
           \<and> b = \<lparr>b_id = int (length (bookings s)) + 1, b_class_id = c_id fc,
                   class_name = name fc, b_client_name = client_name request,
                   b_client_email = client_email request, booking_time = now_utc clock\<rparr>
           \<and> s' = s\<lparr>bookings := bookings s @ [b],
                    classes := decrement_slots (class_id request) (classes s)\<rparr>"
  using assms
  by (auto simp: book_class_def Let_def split: option.splits if_splits)

lemma book_class_failure:
  assumes "book_class request clock s = (Inl e, s')"
  shows "s' = s"
  using assms
  by (auto simp: book_class_def Let_def split: option.splits if_splits)

subsection \<open>Slot accounting\<close>

lemma decrement_slots_bounds:
  assumes "find (\<lambda>c. c_id c = cid) cs = Some fc" and "0 < available_slots fc"
    and "\<forall>c\<in>set cs. 0 \<le> available_slots c \<and> available_slots c \<le> capacity c"
  shows "\<forall>c\<in>set (decrement_slots cid cs). 0 \<le> available_slots c \<and> available_slots c \<le> capacity c"
  using assms
proof (induction cs)
  case Nil
  then show ?case by simp
next
  case (Cons a cs)
  show ?case
  proof (cases "c_id a = cid")
    case True
    with Cons.prems have "a = fc" by simp
    with True Cons.prems show ?thesis by auto
  next
    case False
    with Cons.prems have "find (\<lambda>c. c_id c = cid) cs = Some fc" by simp
    with Cons.IH Cons.prems False show ?thesis by auto
  qed
qed

lemma book_class_bounds:
  assumes "\<forall>c\<in>set (classes s). 0 \<le> available_slots c \<and> available_slots c \<le> capacity c"
  shows "\<forall>c\<in>set (classes (snd (book_class request clock s))).
           0 \<le> available_slots c \<and> available_slots c \<le> capacity c"
proof (cases "book_class request clock s")
  case (Pair res s')
  show ?thesis
  proof (cases res)
    case (Inl e)
    with Pair have "s' = s" by (simp add: book_class_failure)
    with Pair assms show ?thesis by simp
  next
    case (Inr b)
    with Pair book_class_success [of request clock s b s'] obtain fc where
      fc: "find (\<lambda>c. c_id c = class_id request) (classes s) = Some fc" "0 < available_slots fc"
      and s': "classes s' = decrement_slots (class_id request) (classes s)"
      by auto
    from decrement_slots_bounds [OF fc assms] s' Pair show ?thesis by simp
  qed
qed

lemma step_bounds:
  assumes "\<forall>c\<in>set (classes s). 0 \<le> available_slots c \<and> available_slots c \<le> capacity c"
  shows "\<forall>c\<in>set (classes (step db s op)). 0 \<le> available_slots c \<and> available_slots c \<le> capacity c"
proof (cases op)
  case (ListClasses tz)
  with assms show ?thesis by (simp add: get_classes_store)
next
  case (CreateBooking request clock)
  with book_class_bounds [OF assms] show ?thesis by simp
next
  case (QueryBookings email)
  with assms show ?thesis by (simp add: get_bookings_store)
qed

lemma run_bounds:
  "\<forall>c\<in>set (classes (run db ops)). 0 \<le> available_slots c \<and> available_slots c \<le> capacity c"
proof (induction ops rule: rev_induct)
  case Nil
  show ?case by (simp add: run_Nil seeded_def)
next
  case (snoc op ops)
  show ?case unfolding run_snoc by (rule step_bounds) (rule snoc.IH)
qed

text \<open>
  C1. Whatever sequence of list-classes, create-booking and query-bookings operations has
  run on the seeded store, every class of the store has
  \<open>0 \<le> available_slots \<le> capacity\<close>.
\<close>

theorem slots_within_capacity:
  "c \<in> set (classes (run db ops)) \<Longrightarrow> 0 \<le> available_slots c \<and> available_slots c \<le> capacity c"
  using run_bounds by blast

theorem slots_within_capacity_witness:
  "\<lparr>c_id = 1, name = ''Yoga'', instructor = ''Alice'',
     schedule = IST_localize 2025 8 22 8 0, capacity = 10, available_slots = 9\<rparr>
     \<in> set (classes (run sample_tzdb sample_ops))
   \<and> (0::int) \<le> 9 \<and> (9::int) \<le> 10"
proof -
  have mem: "\<lparr>c_id = 1, name = ''Yoga'', instructor = ''Alice'',
     schedule = IST_localize 2025 8 22 8 0, capacity = 10, available_slots = 9\<rparr>
     \<in> set (classes (run sample_tzdb sample_ops))"
    by code_simp
  from slots_within_capacity [OF mem] mem show ?thesis by simp
qed

subsection \<open>Order of the checks\<close>

text \<open>
  C2. The checks of create-booking run in the order existence, capacity, duplicate, and
  the first one that fails decides the error. The second conjunct asks nothing of the
  ledger, so a class with no slot left reports \<open>No slots available\<close> also when the same
  client already holds a booking for it.
\<close>

theorem check_order:
  "(\<not> (\<exists>c\<in>set (classes s). c_id c = class_id request) \<longrightarrow>
      fst (book_class request clock s) = Inl (HTTPException 404 ''Class not found''))
   \<and> (\<forall>fc. find (\<lambda>c. c_id c = class_id request) (classes s) = Some fc
            \<and> available_slots fc \<le> 0 \<longrightarrow>
         fst (book_class request clock s) = Inl (HTTPException 400 ''No slots available''))
   \<and> (\<forall>fc. find (\<lambda>c. c_id c = class_id request) (classes s) = Some fc
            \<and> 0 < available_slots fc
            \<and> (\<exists>b\<in>set (bookings s). b_class_id b = class_id request
                                      \<and> b_client_email b = client_email request) \<longrightarrow>
         fst (book_class request clock s) = Inl (HTTPException 400 ''Already booked for this class''))"
proof (intro conjI allI impI)
  assume "\<not> (\<exists>c\<in>set (classes s). c_id c = class_id request)"
  then have "find (\<lambda>c. c_id c = class_id request) (classes s) = None"
    by (simp add: find_None_iff)
  then show "fst (book_class request clock s) = Inl (HTTPException 404 ''Class not found'')"
    by (simp add: book_class_def)
next
  fix fc
  assume "find (\<lambda>c. c_id c = class_id request) (classes s) = Some fc \<and> available_slots fc \<le> 0"
  then show "fst (book_class request clock s) = Inl (HTTPException 400 ''No slots available'')"
    by (simp add: book_class_def)
next
  fix fc
  assume a: "find (\<lambda>c. c_id c = class_id request) (classes s) = Some fc
            \<and> 0 < available_slots fc
            \<and> (\<exists>b\<in>set (bookings s). b_class_id b = class_id request
                                      \<and> b_client_email b = client_email request)"
  then have "list_ex (\<lambda>b. b_client_email b = client_email request
                              \<and> b_class_id b = class_id request) (bookings s)"
    by (auto simp: list_ex_iff)
  with a show "fst (book_class request clock s) = Inl (HTTPException 400 ''Already booked for this class'')"
    by (simp add: book_class_def)
qed

theorem check_order_witness:
  "(\<not> (\<exists>c\<in>set (classes seeded). c_id c = class_id (sample_request 999 ''a@x.com''))
     \<and> fst (book_class (sample_request 999 ''a@x.com'') sample_clock seeded)
         = Inl (HTTPException 404 ''Class not found''))
   \<and> (find (\<lambda>c. c_id c = class_id (sample_request 1 ''a@x.com''))
          (classes (run sample_tzdb sample_full_ops))
        = Some \<lparr>c_id = 1, name = ''Yoga'', instructor = ''Alice'',
                 schedule = IST_localize 2025 8 22 8 0, capacity = 10, available_slots = 0\<rparr>
      \<and> (\<exists>b\<in>set (bookings (run sample_tzdb sample_full_ops)).
            b_class_id b = class_id (sample_request 1 ''a@x.com'')
            \<and> b_client_email b = client_email (sample_request 1 ''a@x.com''))
      \<and> fst (book_class (sample_request 1 ''a@x.com'') sample_clock
                (run sample_tzdb sample_full_ops))
          = Inl (HTTPException 400 ''No slots available''))
   \<and> (find (\<lambda>c. c_id c = class_id (sample_request 1 ''a@x.com''))
          (classes (run sample_tzdb sample_ops))
        = Some \<lparr>c_id = 1, name = ''Yoga'', instructor = ''Alice'',
                 schedule = IST_localize 2025 8 22 8 0, capacity = 10, available_slots = 9\<rparr>
      \<and> (\<exists>b\<in>set (bookings (run sample_tzdb sample_ops)).
            b_class_id b = class_id (sample_request 1 ''a@x.com'')
            \<and> b_client_email b = client_email (sample_request 1 ''a@x.com''))
      \<and> fst (book_class (sample_request 1 ''a@x.com'') sample_clock
                (run sample_tzdb sample_ops))
          = Inl (HTTPException 400 ''Already booked for this class''))"
proof -
  have h1: "\<not> (\<exists>c\<in>set (classes seeded). c_id c = class_id (sample_request 999 ''a@x.com''))"
    by (simp add: seeded_def sample_request_def)
  have f2: "find (\<lambda>c. c_id c = class_id (sample_request 1 ''a@x.com''))
          (classes (run sample_tzdb sample_full_ops))
        = Some \<lparr>c_id = 1, name = ''Yoga'', instructor = ''Alice'',
                 schedule = IST_localize 2025 8 22 8 0, capacity = 10, available_slots = 0\<rparr>"
    by code_simp
  have d2: "\<exists>b\<in>set (bookings (run sample_tzdb sample_full_ops)).
            b_class_id b = class_id (sample_request 1 ''a@x.com'')
            \<and> b_client_email b = client_email (sample_request 1 ''a@x.com'')"
    by code_simp
  have f3: "find (\<lambda>c. c_id c = class_id (sample_request 1 ''a@x.com''))
          (classes (run sample_tzdb sample_ops))
        = Some \<lparr>c_id = 1, name = ''Yoga'', instructor = ''Alice'',
                 schedule = IST_localize 2025 8 22 8 0, capacity = 10, available_slots = 9\<rparr>"
    by code_simp
  have d3: "\<exists>b\<in>set (bookings (run sample_tzdb sample_ops)).
            b_class_id b = class_id (sample_request 1 ''a@x.com'')
            \<and> b_client_email b = client_email (sample_request 1 ''a@x.com'')"
    by code_simp
  note c1 = check_order [of seeded "sample_request 999 ''a@x.com''" sample_clock]
  note c2 = check_order [of "run sample_tzdb sample_full_ops" "sample_request 1 ''a@x.com''" sample_clock]
  note c3 = check_order [of "run sample_tzdb sample_ops" "sample_request 1 ''a@x.com''" sample_clock]
  from c1 h1 have r1: "fst (book_class (sample_request 999 ''a@x.com'') sample_clock seeded)
         = Inl (HTTPException 404 ''Class not found'')"
    by blast
  from c2 f2 have r2: "fst (book_class (sample_request 1 ''a@x.com'') sample_clock
                (run sample_tzdb sample_full_ops))
          = Inl (HTTPException 400 ''No slots available'')"
    by simp
  from c3 f3 d3 have r3: "fst (book_class (sample_request 1 ''a@x.com'') sample_clock
                (run sample_tzdb sample_ops))
          = Inl (HTTPException 400 ''Already booked for this class'')"
    by simp
  from h1 r1 f2 d2 r2 f3 d3 r3 show ?thesis by blast
qed

subsection \<open>Effect of a successful booking\<close>

lemma sample_booking_run:
  "book_class (sample_request 1 ''a@x.com'') sample_clock seeded = (Inr sample_booking, sample_booked)"
  by code_simp

text \<open>
  C3. A successful create-booking writes to one position of the class list, that of the
  looked-up class (the first with the requested id), whose \<open>available_slots\<close> drops by
  one; it appends one booking, the one it returns, whose \<open>class_name\<close> is the name of
  the looked-up class and whose \<open>booking_time\<close> is the clock reading at the call, with
  every wall-clock field as the clock gave it, tagged UTC (offset 0, name \<open>UTC\<close>).
\<close>

theorem booking_effect:
  assumes "book_class request clock s = (Inr b, s')"
  shows "\<exists>i fc. i < length (classes s)
           \<and> find (\<lambda>c. c_id c = class_id request) (classes s) = Some fc
           \<and> classes s ! i = fc
           \<and> (\<forall>j<i. c_id (classes s ! j) \<noteq> class_id request)
           \<and> classes s' = (classes s)[i := fc\<lparr>available_slots := available_slots fc - 1\<rparr>]
           \<and> bookings s' = bookings s @ [b]
           \<and> class_name b = name fc
           \<and> booking_time b = clock\<lparr>utcoffset := 0, tzname := ''UTC''\<rparr>
           \<and> utcoffset (booking_time b) = 0
           \<and> tzname (booking_time b) = ''UTC''"
proof -
  from book_class_success [OF assms] obtain fc where
    fc: "find (\<lambda>c. c_id c = class_id request) (classes s) = Some fc"
    and b: "b = \<lparr>b_id = int (length (bookings s)) + 1, b_class_id = c_id fc,
                   class_name = name fc, b_client_name = client_name request,
                   b_client_email = client_email request, booking_time = now_utc clock\<rparr>"
    and s': "s' = s\<lparr>bookings := bookings s @ [b],
                    classes := decrement_slots (class_id request) (classes s)\<rparr>"
    by blast
  from find_first_index [OF fc] obtain i where
    i: "i < length (classes s)" "classes s ! i = fc" "c_id fc = class_id request"
       "\<forall>j<i. c_id (classes s ! j) \<noteq> class_id request"
    by blast
  from i have "decrement_slots (class_id request) (classes s)
      = (classes s)[i := fc\<lparr>available_slots := available_slots fc - 1\<rparr>]"
    using decrement_slots_update [of i "classes s" "class_id request"] by simp
  with s' have cl: "classes s' = (classes s)[i := fc\<lparr>available_slots := available_slots fc - 1\<rparr>]"
    by simp
  from s' have bk: "bookings s' = bookings s @ [b]" by simp
  from b have nm: "class_name b = name fc"
    and bt: "booking_time b = clock\<lparr>utcoffset := 0, tzname := ''UTC''\<rparr>"
    by (simp_all add: now_utc_def)
  from bt have tz: "utcoffset (booking_time b) = 0" "tzname (booking_time b) = ''UTC''"
    by simp_all
  from i fc cl bk nm bt tz show ?thesis by blast
qed

theorem booking_effect_witness:
  "book_class (sample_request 1 ''a@x.com'') sample_clock seeded = (Inr sample_booking, sample_booked)
   \<and> (\<exists>i fc. i < length (classes seeded)
           \<and> find (\<lambda>c. c_id c = class_id (sample_request 1 ''a@x.com'')) (classes seeded) = Some fc
           \<and> classes seeded ! i = fc
           \<and> (\<forall>j<i. c_id (classes seeded ! j) \<noteq> class_id (sample_request 1 ''a@x.com''))
           \<and> classes sample_booked = (classes seeded)[i := fc\<lparr>available_slots := available_slots fc - 1\<rparr>]
           \<and> bookings sample_booked = bookings seeded @ [sample_booking]
           \<and> class_name sample_booking = name fc
           \<and> booking_time sample_booking = sample_clock\<lparr>utcoffset := 0, tzname := ''UTC''\<rparr>
           \<and> utcoffset (booking_time sample_booking) = 0
           \<and> tzname (booking_time sample_booking) = ''UTC'')
   \<and> book_class (sample_request 2 ''b@x.com'') (sample_clock\<lparr>day := 21, hour := 17\<rparr>) sample_booked
       = (Inr (sample_booking\<lparr>b_id := 2, b_class_id := 2, class_name := ''Zumba'',
                 b_client_email := ''b@x.com'',
                 booking_time := sample_clock\<lparr>day := 21, hour := 17, utcoffset := 0, tzname := ''UTC''\<rparr>\<rparr>),
          snd (book_class (sample_request 2 ''b@x.com'') (sample_clock\<lparr>day := 21, hour := 17\<rparr>)
                 sample_booked))
   \<and> booking_time (sample_booking\<lparr>b_id := 2, b_class_id := 2, class_name := ''Zumba'',
                 b_client_email := ''b@x.com'',
                 booking_time := sample_clock\<lparr>day := 21, hour := 17, utcoffset := 0, tzname := ''UTC''\<rparr>\<rparr>)
       = (sample_clock\<lparr>day := 21, hour := 17\<rparr>)\<lparr>utcoffset := 0, tzname := ''UTC''\<rparr>
   \<and> hour (booking_time (sample_booking\<lparr>b_id := 2, b_class_id := 2, class_name := ''Zumba'',
                 b_client_email := ''b@x.com'',
                 booking_time := sample_clock\<lparr>day := 21, hour := 17, utcoffset := 0, tzname := ''UTC''\<rparr>\<rparr>))
       = 17"
proof -
  have second: "book_class (sample_request 2 ''b@x.com'') (sample_clock\<lparr>day := 21, hour := 17\<rparr>) sample_booked
       = (Inr (sample_booking\<lparr>b_id := 2, b_class_id := 2, class_name := ''Zumba'',
                 b_client_email := ''b@x.com'',
                 booking_time := sample_clock\<lparr>day := 21, hour := 17, utcoffset := 0, tzname := ''UTC''\<rparr>\<rparr>),
          snd (book_class (sample_request 2 ''b@x.com'') (sample_clock\<lparr>day := 21, hour := 17\<rparr>)
                 sample_booked))"
    by code_simp
  from booking_effect [OF second]
  have t2: "booking_time (sample_booking\<lparr>b_id := 2, b_class_id := 2, class_name := ''Zumba'',
                 b_client_email := ''b@x.com'',
                 booking_time := sample_clock\<lparr>day := 21, hour := 17, utcoffset := 0, tzname := ''UTC''\<rparr>\<rparr>)
       = (sample_clock\<lparr>day := 21, hour := 17\<rparr>)\<lparr>utcoffset := 0, tzname := ''UTC''\<rparr>"
    by blast
  then have h2: "hour (booking_time (sample_booking\<lparr>b_id := 2, b_class_id := 2, class_name := ''Zumba'',
                 b_client_email := ''b@x.com'',
                 booking_time := sample_clock\<lparr>day := 21, hour := 17, utcoffset := 0, tzname := ''UTC''\<rparr>\<rparr>))
       = 17"
    by simp
  note first = booking_effect [OF sample_booking_run]
  show ?thesis by (intro conjI sample_booking_run first second t2 h2)
qed

subsection \<open>The ledger along a run\<close>

lemma book_class_bookings:
  "bookings (snd (book_class request clock s)) = bookings s
   \<or> (\<exists>b. bookings (snd (book_class request clock s)) = bookings s @ [b]
          \<and> b_id b = int (length (bookings s)) + 1
          \<and> b_class_id b = class_id request
          \<and> b_client_email b = client_email request
          \<and> \<not> list_ex (\<lambda>b. b_client_email b = client_email request
                              \<and> b_class_id b = class_id request) (bookings s))"
proof (cases "book_class request clock s")
  case (Pair res s')
  show ?thesis
  proof (cases res)
    case (Inl e)
    with Pair have "s' = s" by (simp add: book_class_failure)
    with Pair show ?thesis by simp
  next
    case (Inr b)
    with Pair book_class_success [of request clock s b s'] obtain fc where
      fc: "find (\<lambda>c. c_id c = class_id request) (classes s) = Some fc"
      and nd: "\<not> list_ex (\<lambda>b. b_client_email b = client_email request
                              \<and> b_class_id b = class_id request) (bookings s)"
      and b: "b = \<lparr>b_id = int (length (bookings s)) + 1, b_class_id = c_id fc,
                   class_name = name fc, b_client_name = client_name request,
                   b_client_email = client_email request, booking_time = now_utc clock\<rparr>"
      and s': "s' = s\<lparr>bookings := bookings s @ [b],
                    classes := decrement_slots (class_id request) (classes s)\<rparr>"
      by blast
    from find_first_index [OF fc] have "c_id fc = class_id request" by blast
    with b have "b_id b = int (length (bookings s)) + 1" "b_class_id b = class_id request"
      "b_client_email b = client_email request"
      by simp_all
    moreover from s' Pair have "bookings (snd (book_class request clock s)) = bookings s @ [b]"
      by simp
    ultimately show ?thesis using nd by blast
  qed
qed

lemma step_bookings:
  "bookings (step db s op) = bookings s
   \<or> (\<exists>b. bookings (step db s op) = bookings s @ [b]
          \<and> b_id b = int (length (bookings s)) + 1
          \<and> (b_class_id b, b_client_email b)
               \<notin> set (map (\<lambda>b. (b_class_id b, b_client_email b)) (bookings s)))"
proof (cases op)
  case (ListClasses tz)
  then show ?thesis by (simp add: get_classes_store)
next
  case (CreateBooking request clock)
  from book_class_bookings [of request clock s] show ?thesis
  proof
    assume "bookings (snd (book_class request clock s)) = bookings s"
    with CreateBooking show ?thesis by simp
  next
    assume "\<exists>b. bookings (snd (book_class request clock s)) = bookings s @ [b]
          \<and> b_id b = int (length (bookings s)) + 1
          \<and> b_class_id b = class_id request
          \<and> b_client_email b = client_email request
          \<and> \<not> list_ex (\<lambda>b. b_client_email b = client_email request
                              \<and> b_class_id b = class_id request) (bookings s)"
    then obtain b where b: "bookings (snd (book_class request clock s)) = bookings s @ [b]"
      "b_id b = int (length (bookings s)) + 1" "b_class_id b = class_id request"
      "b_client_email b = client_email request"
      and nd: "\<not> list_ex (\<lambda>b. b_client_email b = client_email request
                              \<and> b_class_id b = class_id request) (bookings s)"
      by blast
    from nd b(3,4) have "(b_class_id b, b_client_email b)
               \<notin> set (map (\<lambda>b. (b_class_id b, b_client_email b)) (bookings s))"
      by (auto simp: list_ex_iff)
    with b CreateBooking show ?thesis by auto
  qed
next
  case (QueryBookings email)
  then show ?thesis by (simp add: get_bookings_store)
qed

lemma run_ids:
  "map b_id (bookings (run db ops)) = map (\<lambda>i. int i + 1) [0..<length (bookings (run db ops))]"
proof (induction ops rule: rev_induct)
  case Nil
  show ?case by (simp add: run_Nil seeded_def)
next
  case (snoc op ops)
  from step_bookings [of db "run db ops" op] snoc show ?case
    unfolding run_snoc by auto
qed

lemma run_pairs_distinct:
  "distinct (map (\<lambda>b. (b_class_id b, b_client_email b)) (bookings (run db ops)))"
proof (induction ops rule: rev_induct)
  case Nil
  show ?case by (simp add: run_Nil seeded_def)
next
  case (snoc op ops)
  from step_bookings [of db "run db ops" op] snoc show ?case
    unfolding run_snoc by auto
qed

lemma successor_list_sorted: "sorted_wrt (<) (map (\<lambda>i. int i + 1) [0..<n])"
  by (induction n) (auto simp: sorted_wrt_append)

lemma successor_list_distinct: "distinct (map (\<lambda>i. int i + 1) [0..<n])"
  by (simp add: distinct_map inj_on_def)

text \<open>
  C4. In every reachable state the booking ids are strictly increasing along the ledger
  (whose order is creation order), hence unique; the booking at position \<open>i\<close> has id
  \<open>i + 1\<close>, and a successful create-booking assigns the number of bookings plus one.
\<close>

theorem booking_ids_sequential:
  "sorted_wrt (<) (map b_id (bookings (run db ops)))
   \<and> distinct (map b_id (bookings (run db ops)))
   \<and> (\<forall>i<length (bookings (run db ops)). b_id (bookings (run db ops) ! i) = int i + 1)
   \<and> (book_class request clock (run db ops) = (Inr b, s') \<longrightarrow>
        b_id b = int (length (bookings (run db ops))) + 1)"
proof (intro conjI allI impI)
  show "sorted_wrt (<) (map b_id (bookings (run db ops)))"
    by (subst run_ids) (rule successor_list_sorted)
  show "distinct (map b_id (bookings (run db ops)))"
    by (subst run_ids) (rule successor_list_distinct)
next
  fix i assume i: "i < length (bookings (run db ops))"
  then have "b_id (bookings (run db ops) ! i) = map b_id (bookings (run db ops)) ! i"
    by simp
  also have "\<dots> = map (\<lambda>i. int i + 1) [0..<length (bookings (run db ops))] ! i"
    by (subst run_ids) (rule refl)
  also from i have "\<dots> = int i + 1" by simp
  finally show "b_id (bookings (run db ops) ! i) = int i + 1" .
next
  assume "book_class request clock (run db ops) = (Inr b, s')"
  from book_class_success [OF this] show "b_id b = int (length (bookings (run db ops))) + 1"
    by auto
qed

theorem booking_ids_sequential_witness:
  "(1::nat) < length (bookings (run sample_tzdb sample_ops))
   \<and> b_id (bookings (run sample_tzdb sample_ops) ! 1) = 2
   \<and> book_class (sample_request 3 ''a@x.com'') sample_clock (run sample_tzdb sample_ops)
       = (Inr (sample_booking\<lparr>b_id := 3, b_class_id := 3, class_name := ''HIIT''\<rparr>),
          snd (book_class (sample_request 3 ''a@x.com'') sample_clock (run sample_tzdb sample_ops)))
   \<and> b_id (sample_booking\<lparr>b_id := 3, b_class_id := 3, class_name := ''HIIT''\<rparr>)
       = int (length (bookings (run sample_tzdb sample_ops))) + 1"
proof -
  have len: "(1::nat) < length (bookings (run sample_tzdb sample_ops))" by code_simp
  have bk: "book_class (sample_request 3 ''a@x.com'') sample_clock (run sample_tzdb sample_ops)
       = (Inr (sample_booking\<lparr>b_id := 3, b_class_id := 3, class_name := ''HIIT''\<rparr>),
          snd (book_class (sample_request 3 ''a@x.com'') sample_clock (run sample_tzdb sample_ops)))"
    by code_simp
  note t = booking_ids_sequential [of sample_tzdb sample_ops "sample_request 3 ''a@x.com''" sample_clock
      "sample_booking\<lparr>b_id := 3, b_class_id := 3, class_name := ''HIIT''\<rparr>"
      "snd (book_class (sample_request 3 ''a@x.com'') sample_clock (run sample_tzdb sample_ops))"]
  from t len have "b_id (bookings (run sample_tzdb sample_ops) ! 1) = 2" by auto
  moreover from t bk have "b_id (sample_booking\<lparr>b_id := 3, b_class_id := 3, class_name := ''HIIT''\<rparr>)
       = int (length (bookings (run sample_tzdb sample_ops))) + 1" by blast
  ultimately show ?thesis using len bk by blast
qed

lemma distinct_map_filter_le_1:
  "distinct (map f xs) \<Longrightarrow> length (filter (\<lambda>x. f x = y) xs) \<le> 1"
proof (induction xs)
  case Nil
  then show ?case by simp
next
  case (Cons a xs)
  show ?case
  proof (cases "f a = y")
    case True
    with Cons.prems have "y \<notin> f ` set xs" by simp
    then have "\<forall>x\<in>set xs. f x \<noteq> y" by blast
    then have "filter (\<lambda>x. f x = y) xs = []" by (simp add: filter_empty_conv)
    with True show ?thesis by simp
  next
    case False
    with Cons show ?thesis by simp
  qed
qed

text \<open>
  C5. In every reachable state the ledger holds at most one booking for any pair of
  class id and client email.
\<close>

theorem one_booking_per_pair:
  "length (filter (\<lambda>b. b_class_id b = cid \<and> b_client_email b = email)
             (bookings (run db ops))) \<le> 1"
proof -
  have "length (filter (\<lambda>b. (b_class_id b, b_client_email b) = (cid, email))
             (bookings (run db ops))) \<le> 1"
    by (rule distinct_map_filter_le_1) (rule run_pairs_distinct)
  then show ?thesis by simp
qed

subsection \<open>Failing bookings\<close>

text \<open>
  C6. A create-booking that fails leaves the store as it was, ledger and class list
  alike, and its error is one of \<open>Class not found\<close>, \<open>No slots available\<close> and
  \<open>Already booked for this class\<close>.
\<close>

theorem failed_booking_unchanged:
  assumes "book_class request clock s = (Inl e, s')"
  shows "s' = s \<and> bookings s' = bookings s \<and> classes s' = classes s
         \<and> e \<in> {HTTPException 404 ''Class not found'',
                 HTTPException 400 ''No slots available'',
                 HTTPException 400 ''Already booked for this class''}"
  using assms
  by (auto simp: book_class_def Let_def split: option.splits if_splits)

theorem failed_booking_unchanged_witness:
  "(book_class (sample_request 999 ''a@x.com'') sample_clock seeded
      = (Inl (HTTPException 404 ''Class not found''), seeded))
   \<and> (book_class (sample_request 1 ''z@x.com'') sample_clock (run sample_tzdb sample_full_ops)
      = (Inl (HTTPException 400 ''No slots available''), run sample_tzdb sample_full_ops))
   \<and> (book_class (sample_request 1 ''a@x.com'') sample_clock sample_booked
      = (Inl (HTTPException 400 ''Already booked for this class''), sample_booked))"
proof -
  have f1: "fst (book_class (sample_request 999 ''a@x.com'') sample_clock seeded)
      = Inl (HTTPException 404 ''Class not found'')" by code_simp
  have f2: "fst (book_class (sample_request 1 ''z@x.com'') sample_clock (run sample_tzdb sample_full_ops))
      = Inl (HTTPException 400 ''No slots available'')" by code_simp
  have f3: "fst (book_class (sample_request 1 ''a@x.com'') sample_clock sample_booked)
      = Inl (HTTPException 400 ''Already booked for this class'')" by code_simp
  from f1 failed_booking_unchanged [of "sample_request 999 ''a@x.com''" sample_clock seeded
      "HTTPException 404 ''Class not found''"
      "snd (book_class (sample_request 999 ''a@x.com'') sample_clock seeded)"]
  have r1: "book_class (sample_request 999 ''a@x.com'') sample_clock seeded
      = (Inl (HTTPException 404 ''Class not found''), seeded)"
    by (metis prod.collapse)
  from f2 failed_booking_unchanged [of "sample_request 1 ''z@x.com''" sample_clock
      "run sample_tzdb sample_full_ops" "HTTPException 400 ''No slots available''"
      "snd (book_class (sample_request 1 ''z@x.com'') sample_clock (run sample_tzdb sample_full_ops))"]
  have r2: "book_class (sample_request 1 ''z@x.com'') sample_clock (run sample_tzdb sample_full_ops)
      = (Inl (HTTPException 400 ''No slots available''), run sample_tzdb sample_full_ops)"
    by (metis prod.collapse)
  from f3 failed_booking_unchanged [of "sample_request 1 ''a@x.com''" sample_clock
      sample_booked "HTTPException 400 ''Already booked for this class''"
      "snd (book_class (sample_request 1 ''a@x.com'') sample_clock sample_booked)"]
  have r3: "book_class (sample_request 1 ''a@x.com'') sample_clock sample_booked
      = (Inl (HTTPException 400 ''Already booked for this class''), sample_booked)"
    by (metis prod.collapse)
  from r1 r2 r3 show ?thesis by blast
qed

subsection \<open>Querying the ledger\<close>

lemma run_ids_sorted: "sorted_wrt (<) (map b_id (bookings (run db ops)))"
  by (subst run_ids) (rule successor_list_sorted)

lemma get_bookings_sublist:
  "fst (get_bookings email s) = bookings s
   \<or> (\<exists>e. fst (get_bookings email s) = filter (\<lambda>b. b_client_email b = e) (bookings s))"
  by (cases email) (auto simp: get_bookings_def)

text \<open>
  C7. Query-bookings without a filter returns the whole ledger, in ledger order; with a
  filter (an \<open>EmailStr\<close>, so never the empty string) it returns the bookings whose
  \<open>client_email\<close> equals the filter character for character, in ledger order. It has
  no error result and returns the store unchanged. In a reachable state the ledger order
  is the order of creation: the ids of the result increase strictly.
\<close>

theorem query_bookings:
  "get_bookings None s = (bookings s, s)
   \<and> (e \<noteq> [] \<longrightarrow> get_bookings (Some e) s = (filter (\<lambda>b. b_client_email b = e) (bookings s), s))
   \<and> snd (get_bookings email s) = s
   \<and> sorted_wrt (<) (map b_id (fst (get_bookings email (run db ops))))"
proof (intro conjI impI)
  show "get_bookings None s = (bookings s, s)" by (simp add: get_bookings_def)
  show "snd (get_bookings email s) = s" by (rule get_bookings_store)
next
  assume "e \<noteq> []"
  then show "get_bookings (Some e) s = (filter (\<lambda>b. b_client_email b = e) (bookings s), s)"
    by (simp add: get_bookings_def)
next
  have "sorted_wrt (\<lambda>x y. b_id x < b_id y) (bookings (run db ops))"
    using run_ids_sorted [of db ops] by (simp add: sorted_wrt_map)
  then have "sorted_wrt (\<lambda>x y. b_id x < b_id y) (fst (get_bookings email (run db ops)))"
    using get_bookings_sublist [of email "run db ops"] by (auto simp: sorted_wrt_filter)
  then show "sorted_wrt (<) (map b_id (fst (get_bookings email (run db ops))))"
    by (simp add: sorted_wrt_map)
qed

theorem query_bookings_witness:
  "''a@x.com'' \<noteq> [] \<and> ''A@x.com'' \<noteq> []
   \<and> get_bookings None sample_booked = ([sample_booking], sample_booked)
   \<and> get_bookings (Some ''a@x.com'') sample_booked = ([sample_booking], sample_booked)
   \<and> get_bookings (Some ''A@x.com'') sample_booked = ([], sample_booked)"
  using query_bookings [of sample_booked "''a@x.com''"] query_bookings [of sample_booked "''A@x.com''"]
  by (simp add: sample_booked_def sample_booking_def)

subsection \<open>Unknown timezones\<close>

text \<open>
  C8. List-classes with a timezone that the database lookup rejects fails with status
  400, \<open>Invalid timezone\<close>, and returns the store unchanged.
\<close>

theorem invalid_timezone:
  "db timezone = None \<Longrightarrow> get_classes db timezone s = (Inl (HTTPException 400 ''Invalid timezone''), s)"
  by (simp add: get_classes_def)

theorem invalid_timezone_witness:
  "sample_tzdb ''Mars/Olympus'' = None
   \<and> get_classes sample_tzdb ''Mars/Olympus'' seeded
       = (Inl (HTTPException 400 ''Invalid timezone''), seeded)"
proof -
  have h: "sample_tzdb ''Mars/Olympus'' = None" by (simp add: sample_tzdb_def)
  from invalid_timezone [of sample_tzdb "''Mars/Olympus''" seeded] h show ?thesis by simp
qed

subsection \<open>What a booking leaves alone\<close>

lemma decrement_slots_nth:
  "i < length cs \<Longrightarrow>
   decrement_slots cid cs ! i = cs ! i
   \<or> (c_id (cs ! i) = cid
      \<and> decrement_slots cid cs ! i = (cs ! i)\<lparr>available_slots := available_slots (cs ! i) - 1\<rparr>)"
proof (induction cs arbitrary: i)
  case Nil
  then show ?case by simp
next
  case (Cons a cs)
  show ?case
  proof (cases i)
    case 0
    then show ?thesis by simp
  next
    case (Suc k)
    with Cons.prems have "k < length cs" by simp
    from Cons.IH [OF this] Suc show ?thesis by simp
  qed
qed

lemma decrement_slots_length: "length (decrement_slots cid cs) = length cs"
  by (induction cs) simp_all

lemma book_class_classes:
  "classes (snd (book_class request clock s)) = classes s
   \<or> classes (snd (book_class request clock s)) = decrement_slots (class_id request) (classes s)"
  by (simp add: book_class_def Let_def split: option.splits)

text \<open>
  C10. Whether it succeeds or fails, a create-booking keeps the length of the class
  list, keeps id, name, instructor, schedule and capacity of every class, and leaves every
  class whose id is not the requested one exactly as it was.
\<close>

theorem booking_frame:
  "length (classes (snd (book_class request clock s))) = length (classes s)
   \<and> (\<forall>i<length (classes s).
         c_id (classes (snd (book_class request clock s)) ! i) = c_id (classes s ! i)
       \<and> name (classes (snd (book_class request clock s)) ! i) = name (classes s ! i)
       \<and> instructor (classes (snd (book_class request clock s)) ! i) = instructor (classes s ! i)
       \<and> schedule (classes (snd (book_class request clock s)) ! i) = schedule (classes s ! i)
       \<and> capacity (classes (snd (book_class request clock s)) ! i) = capacity (classes s ! i)
       \<and> (c_id (classes s ! i) \<noteq> class_id request \<longrightarrow>
            classes (snd (book_class request clock s)) ! i = classes s ! i))"
proof (cases "classes (snd (book_class request clock s)) = classes s")
  case True
  then show ?thesis by simp
next
  case False
  with book_class_classes [of request clock s]
  have eq: "classes (snd (book_class request clock s))
      = decrement_slots (class_id request) (classes s)"
    by blast
  show ?thesis
  proof (intro conjI allI impI)
    show "length (classes (snd (book_class request clock s))) = length (classes s)"
      by (simp add: eq decrement_slots_length)
  next
    fix i assume "i < length (classes s)"
    from decrement_slots_nth [OF this, of "class_id request"]
    show "c_id (classes (snd (book_class request clock s)) ! i) = c_id (classes s ! i)"
      unfolding eq by auto
  next
    fix i assume "i < length (classes s)"
    from decrement_slots_nth [OF this, of "class_id request"]
    show "name (classes (snd (book_class request clock s)) ! i) = name (classes s ! i)"
      unfolding eq by auto
  next
    fix i assume "i < length (classes s)"
    from decrement_slots_nth [OF this, of "class_id request"]
    show "instructor (classes (snd (book_class request clock s)) ! i) = instructor (classes s ! i)"
      unfolding eq by auto
  next
    fix i assume "i < length (classes s)"
    from decrement_slots_nth [OF this, of "class_id request"]
    show "schedule (classes (snd (book_class request clock s)) ! i) = schedule (classes s ! i)"
      unfolding eq by auto
  next
    fix i assume "i < length (classes s)"
    from decrement_slots_nth [OF this, of "class_id request"]
    show "capacity (classes (snd (book_class request clock s)) ! i) = capacity (classes s ! i)"
      unfolding eq by auto
  next
    fix i assume "i < length (classes s)" and "c_id (classes s ! i) \<noteq> class_id request"
    with decrement_slots_nth [of i "classes s" "class_id request"]
    show "classes (snd (book_class request clock s)) ! i = classes s ! i"
      unfolding eq by auto
  qed
qed

theorem booking_frame_witness:
  "(1::nat) < length (classes seeded)
   \<and> c_id (classes seeded ! 1) \<noteq> class_id (sample_request 1 ''a@x.com'')
   \<and> classes (snd (book_class (sample_request 1 ''a@x.com'') sample_clock seeded)) ! 1
       = classes seeded ! 1
   \<and> (0::nat) < length (classes seeded)
   \<and> capacity (classes (snd (book_class (sample_request 1 ''a@x.com'') sample_clock seeded)) ! 0)
       = capacity (classes seeded ! 0)
   \<and> schedule (classes (snd (book_class (sample_request 1 ''a@x.com'') sample_clock seeded)) ! 0)
       = schedule (classes seeded ! 0)"
proof -
  have l1: "(1::nat) < length (classes seeded)" and l0: "(0::nat) < length (classes seeded)"
    by (simp_all add: seeded_def)
  have ne: "c_id (classes seeded ! 1) \<noteq> class_id (sample_request 1 ''a@x.com'')"
    by (simp add: seeded_def sample_request_def)
  note t = booking_frame [of "sample_request 1 ''a@x.com''" sample_clock seeded]
  from t l1 ne have "classes (snd (book_class (sample_request 1 ''a@x.com'') sample_clock seeded)) ! 1
       = classes seeded ! 1" by blast
  moreover from t l0 have
    "capacity (classes (snd (book_class (sample_request 1 ''a@x.com'') sample_clock seeded)) ! 0)
       = capacity (classes seeded ! 0)"
    "schedule (classes (snd (book_class (sample_request 1 ''a@x.com'') sample_clock seeded)) ! 0)
       = schedule (classes seeded ! 0)"
    by blast+
  ultimately show ?thesis using l1 l0 ne by blast
qed

subsection \<open>Listing the classes\<close>

text \<open>Arithmetic of days and seconds.\<close>

lemma div_mod_bounds:
  fixes x :: int
  assumes "0 < b" and "lo * b \<le> x" and "x < hi * b"
  shows "lo \<le> x div b \<and> x div b < hi"
proof -
  define d where "d = x div b"
  define s where "s = x mod b"
  have x: "x = d * b + s" by (simp add: d_def s_def)
  have s: "0 \<le> s" "s < b" using assms(1) by (simp_all add: s_def)
  have "lo \<le> d"
  proof (rule ccontr)
    assume "\<not> lo \<le> d"
    then have "d + 1 \<le> lo" by simp
    then have "(d + 1) * b \<le> lo * b" using assms(1) by (simp add: mult_right_mono)
    with assms(2) x s show False by (simp add: algebra_simps)
  qed
  moreover have "d < hi"
  proof (rule ccontr)
    assume "\<not> d < hi"
    then have "hi \<le> d" by simp
    then have "hi * b \<le> d * b" using assms(1) by (simp add: mult_right_mono)
    with assms(3) x s show False by simp
  qed
  ultimately show ?thesis by (simp add: d_def)
qed

lemma seconds_split:
  fixes r :: int
  shows "r div 3600 * 3600 + r mod 3600 div 60 * 60 + r mod 3600 mod 60 = r"
proof -
  have "r mod 3600 div 60 * 60 + r mod 3600 mod 60 = r mod 3600" by simp
  moreover have "r div 3600 * 3600 + r mod 3600 = r" by simp
  ultimately show ?thesis by linarith
qed

lemma seconds_ranges:
  fixes r :: int
  assumes "0 \<le> r" and "r < 86400"
  shows "0 \<le> r div 3600 \<and> r div 3600 < 24 \<and> 0 \<le> r mod 3600 div 60 \<and> r mod 3600 div 60 < 60
         \<and> 0 \<le> r mod 3600 mod 60 \<and> r mod 3600 mod 60 < 60"
proof -
  have a: "0 \<le> r div 3600 \<and> r div 3600 < 24"
    using div_mod_bounds [of 3600 0 r 24] assms by simp
  have m: "0 \<le> r mod 3600" "r mod 3600 < 3600" by simp_all
  have c: "0 \<le> r mod 3600 div 60 \<and> r mod 3600 div 60 < 60"
    using div_mod_bounds [of 60 0 "r mod 3600" 60] m by simp
  have e: "0 \<le> r mod 3600 mod 60" "r mod 3600 mod 60 < 60" by simp_all
  from a c e show ?thesis by blast
qed

lemma ord2ymd_aug_2025:
  "ord2ymd 739484 = (2025, 8, 21)" "ord2ymd 739485 = (2025, 8, 22)" "ord2ymd 739486 = (2025, 8, 23)"
  by code_simp+

lemma ymd2ord_aug_2025:
  "ymd2ord 2025 8 21 = 739484" "ymd2ord 2025 8 22 = 739485" "ymd2ord 2025 8 23 = 739486"
  by code_simp+

text \<open>
  Adding less than a day to a reading on 22 August 2025 gives a reading on the 21st, 22nd
  or 23rd whose seconds count is the sum.
\<close>

lemma add_seconds_around_aug_22:
  assumes date: "year u = 2025" "month u = 8" "day u = 22"
    and tod: "0 \<le> hour u * 3600 + minute u * 60 + second u"
             "hour u * 3600 + minute u * 60 + second u < 86400"
    and k: "- 86400 < k" "k < 86400"
  shows "\<exists>loc. add_seconds u k = Some loc
           \<and> wall_seconds loc = wall_seconds u + k
           \<and> year loc = 2025 \<and> month loc = 8 \<and> 21 \<le> day loc \<and> day loc \<le> 23
           \<and> 0 \<le> hour loc \<and> hour loc < 24
           \<and> 0 \<le> minute loc \<and> minute loc < 60
           \<and> 0 \<le> second loc \<and> second loc < 60
           \<and> microsecond loc = microsecond u
           \<and> utcoffset loc = utcoffset u \<and> tzname loc = tzname u"
proof -
  define t where "t = hour u * 3600 + minute u * 60 + second u"
  define total where "total = wall_seconds u + k"
  define days where "days = total div 86400"
  define secs where "secs = total mod 86400"
  have w: "wall_seconds u = 739485 * 86400 + t"
    by (simp add: wall_seconds_def toordinal_def date ymd2ord_aug_2025 t_def)
  have secs: "0 \<le> secs" "secs < 86400" by (simp_all add: secs_def)
  have tot: "total = days * 86400 + secs" by (simp add: days_def secs_def)
  from tod k w have "739484 * 86400 \<le> total" "total < 739487 * 86400"
    by (simp_all add: total_def t_def)
  then have "739484 \<le> days" "days < 739487"
    unfolding days_def using div_mod_bounds [of 86400 739484 total 739487] by simp_all
  then consider "days = 739484" | "days = 739485" | "days = 739486" by linarith
  then obtain d where d: "ord2ymd days = (2025, 8, d)" "ymd2ord 2025 8 d = days" "21 \<le> d" "d \<le> 23"
    by cases (simp_all add: ord2ymd_aug_2025 ymd2ord_aug_2025)
  from \<open>739484 \<le> days\<close> \<open>days < 739487\<close> have rng: "0 < days" "days \<le> MAXORDINAL"
    by (simp_all add: MAXORDINAL_def)
  define loc where "loc = u\<lparr>year := 2025, month := 8, day := d, hour := secs div 3600,
      minute := secs mod 3600 div 60, second := secs mod 3600 mod 60\<rparr>"
  have a: "add_seconds u k = Some loc"
    using rng d(1)
    by (simp add: add_seconds_def Let_def total_def [symmetric] days_def [symmetric]
        secs_def [symmetric] loc_def)
  have "wall_seconds loc = days * 86400 + (secs div 3600 * 3600 + secs mod 3600 div 60 * 60 + secs mod 3600 mod 60)"
    by (simp add: wall_seconds_def toordinal_def loc_def d(2))
  also have "\<dots> = total" by (simp only: seconds_split tot)
  finally have ws: "wall_seconds loc = wall_seconds u + k" by (simp add: total_def)
  from seconds_ranges [OF secs] have r: "0 \<le> hour loc \<and> hour loc < 24
           \<and> 0 \<le> minute loc \<and> minute loc < 60
           \<and> 0 \<le> second loc \<and> second loc < 60"
    by (simp add: loc_def)
  have f: "year loc = 2025 \<and> month loc = 8 \<and> 21 \<le> day loc \<and> day loc \<le> 23
      \<and> microsecond loc = microsecond u \<and> utcoffset loc = utcoffset u \<and> tzname loc = tzname u"
    using d(3,4) by (simp add: loc_def)
  from a ws r f show ?thesis by blast
qed

lemma astimezone_via_utc:
  assumes u: "add_seconds dt (- utcoffset dt) = Some u"
    and inst: "wall_seconds u = instant dt"
    and date: "year u = 2025" "month u = 8" "day u = 22"
    and tod: "0 \<le> hour u * 3600 + minute u * 60 + second u"
             "hour u * 3600 + minute u * 60 + second u < 86400"
    and tz: "\<forall>t. - 86400 < fst (tz t) \<and> fst (tz t) < 86400"
  shows "\<exists>loc. astimezone dt tz = Some loc
           \<and> instant loc = instant dt
           \<and> (utcoffset loc, tzname loc) = tz (instant dt)
           \<and> year loc = 2025 \<and> month loc = 8 \<and> 21 \<le> day loc \<and> day loc \<le> 23
           \<and> 0 \<le> hour loc \<and> hour loc < 24
           \<and> 0 \<le> minute loc \<and> minute loc < 60
           \<and> 0 \<le> second loc \<and> second loc < 60"
proof -
  obtain off abbr where z: "tz (instant dt) = (off, abbr)" by (cases "tz (instant dt)")
  from tz have "- 86400 < fst (tz (instant dt)) \<and> fst (tz (instant dt)) < 86400" by blast
  with z have k: "- 86400 < off" "off < 86400" by simp_all
  from add_seconds_around_aug_22 [OF date tod k] obtain l where
    l: "add_seconds u off = Some l" "wall_seconds l = wall_seconds u + off"
       "year l = 2025" "month l = 8" "21 \<le> day l" "day l \<le> 23"
       "0 \<le> hour l" "hour l < 24" "0 \<le> minute l" "minute l < 60"
       "0 \<le> second l" "second l < 60"
    by blast
  define loc where "loc = l\<lparr>utcoffset := off, tzname := abbr\<rparr>"
  have a: "astimezone dt tz = Some loc"
    by (simp add: astimezone_def u inst z l(1) loc_def)
  have w: "wall_seconds loc = wall_seconds l"
    by (simp add: wall_seconds_def toordinal_def loc_def)
  have i: "instant loc = instant dt"
    by (simp add: instant_def [of loc] w l(2) inst) (simp add: loc_def)
  have f: "(utcoffset loc, tzname loc) = tz (instant dt)"
    by (simp add: loc_def z)
  have r: "year loc = 2025 \<and> month loc = 8 \<and> 21 \<le> day loc \<and> day loc \<le> 23
           \<and> 0 \<le> hour loc \<and> hour loc < 24
           \<and> 0 \<le> minute loc \<and> minute loc < 60
           \<and> 0 \<le> second loc \<and> second loc < 60"
    using l by (simp add: loc_def)
  from a i f r show ?thesis by blast
qed

text \<open>The seeded schedules, taken to UTC.\<close>

lemma seeded_to_utc:
  "add_seconds (IST_localize 2025 8 22 8 0) (- utcoffset (IST_localize 2025 8 22 8 0))
     = Some ((IST_localize 2025 8 22 8 0)\<lparr>hour := 2, minute := 30\<rparr>)"
  "add_seconds (IST_localize 2025 8 22 10 0) (- utcoffset (IST_localize 2025 8 22 10 0))
     = Some ((IST_localize 2025 8 22 10 0)\<lparr>hour := 4, minute := 30\<rparr>)"
  "add_seconds (IST_localize 2025 8 22 18 0) (- utcoffset (IST_localize 2025 8 22 18 0))
     = Some ((IST_localize 2025 8 22 18 0)\<lparr>hour := 12, minute := 30\<rparr>)"
  by code_simp+

lemma seeded_instants:
  "wall_seconds ((IST_localize 2025 8 22 8 0)\<lparr>hour := 2, minute := 30\<rparr>)
     = instant (IST_localize 2025 8 22 8 0)"
  "wall_seconds ((IST_localize 2025 8 22 10 0)\<lparr>hour := 4, minute := 30\<rparr>)
     = instant (IST_localize 2025 8 22 10 0)"
  "wall_seconds ((IST_localize 2025 8 22 18 0)\<lparr>hour := 12, minute := 30\<rparr>)
     = instant (IST_localize 2025 8 22 18 0)"
  by code_simp+

lemma astimezone_seeded:
  assumes tz: "\<forall>t. - 86400 < fst (tz t) \<and> fst (tz t) < 86400"
    and h: "h = 8 \<or> h = 10 \<or> h = 18"
  shows "\<exists>loc. astimezone (IST_localize 2025 8 22 h 0) tz = Some loc
           \<and> instant loc = instant (IST_localize 2025 8 22 h 0)
           \<and> (utcoffset loc, tzname loc) = tz (instant (IST_localize 2025 8 22 h 0))
           \<and> year loc = 2025 \<and> month loc = 8 \<and> 21 \<le> day loc \<and> day loc \<le> 23
           \<and> 0 \<le> hour loc \<and> hour loc < 24
           \<and> 0 \<le> minute loc \<and> minute loc < 60
           \<and> 0 \<le> second loc \<and> second loc < 60"
  using h
proof (elim disjE)
  assume "h = 8"
  then show ?thesis
    using astimezone_via_utc [OF seeded_to_utc(1) seeded_instants(1) _ _ _ _ _ tz]
    by (simp add: IST_localize_def)
next
  assume "h = 10"
  then show ?thesis
    using astimezone_via_utc [OF seeded_to_utc(2) seeded_instants(2) _ _ _ _ _ tz]
    by (simp add: IST_localize_def)
next
  assume "h = 18"
  then show ?thesis
    using astimezone_via_utc [OF seeded_to_utc(3) seeded_instants(3) _ _ _ _ _ tz]
    by (simp add: IST_localize_def)
qed

lemma seeded_in_utc:
  "\<exists>loc. astimezone (IST_localize 2025 8 22 8 0) utc = Some loc
      \<and> strftime loc = ''2025-08-22 02:30:00 UTC+0000''"
  "\<exists>loc. astimezone (IST_localize 2025 8 22 10 0) utc = Some loc
      \<and> strftime loc = ''2025-08-22 04:30:00 UTC+0000''"
  "\<exists>loc. astimezone (IST_localize 2025 8 22 18 0) utc = Some loc
      \<and> strftime loc = ''2025-08-22 12:30:00 UTC+0000''"
proof -
  have "astimezone (IST_localize 2025 8 22 8 0) utc
      = Some ((IST_localize 2025 8 22 8 0)\<lparr>hour := 2, minute := 30, utcoffset := 0, tzname := ''UTC''\<rparr>)"
    by code_simp
  moreover have "strftime ((IST_localize 2025 8 22 8 0)\<lparr>hour := 2, minute := 30, utcoffset := 0, tzname := ''UTC''\<rparr>)
      = ''2025-08-22 02:30:00 UTC+0000''"
    by code_simp
  ultimately show "\<exists>loc. astimezone (IST_localize 2025 8 22 8 0) utc = Some loc
      \<and> strftime loc = ''2025-08-22 02:30:00 UTC+0000''" by blast
  have "astimezone (IST_localize 2025 8 22 10 0) utc
      = Some ((IST_localize 2025 8 22 10 0)\<lparr>hour := 4, minute := 30, utcoffset := 0, tzname := ''UTC''\<rparr>)"
    by code_simp
  moreover have "strftime ((IST_localize 2025 8 22 10 0)\<lparr>hour := 4, minute := 30, utcoffset := 0, tzname := ''UTC''\<rparr>)
      = ''2025-08-22 04:30:00 UTC+0000''"
    by code_simp
  ultimately show "\<exists>loc. astimezone (IST_localize 2025 8 22 10 0) utc = Some loc
      \<and> strftime loc = ''2025-08-22 04:30:00 UTC+0000''" by blast
  have "astimezone (IST_localize 2025 8 22 18 0) utc
      = Some ((IST_localize 2025 8 22 18 0)\<lparr>hour := 12, minute := 30, utcoffset := 0, tzname := ''UTC''\<rparr>)"
    by code_simp
  moreover have "strftime ((IST_localize 2025 8 22 18 0)\<lparr>hour := 12, minute := 30, utcoffset := 0, tzname := ''UTC''\<rparr>)
      = ''2025-08-22 12:30:00 UTC+0000''"
    by code_simp
  ultimately show "\<exists>loc. astimezone (IST_localize 2025 8 22 18 0) utc = Some loc
      \<and> strftime loc = ''2025-08-22 12:30:00 UTC+0000''" by blast
qed

text \<open>
  Along a run the class list keeps its three entries; only \<open>available_slots\<close> moves.
\<close>

lemma run_classes_shape:
  "\<exists>a1 a2 a3. classes (run db ops) =
     [\<lparr>c_id = 1, name = ''Yoga'', instructor = ''Alice'',
       schedule = IST_localize 2025 8 22 8 0, capacity = 10, available_slots = a1\<rparr>,
      \<lparr>c_id = 2, name = ''Zumba'', instructor = ''Bob'',
       schedule = IST_localize 2025 8 22 10 0, capacity = 12, available_slots = a2\<rparr>,
      \<lparr>c_id = 3, name = ''HIIT'', instructor = ''Charlie'',
       schedule = IST_localize 2025 8 22 18 0, capacity = 15, available_slots = a3\<rparr>]"
proof (induction ops rule: rev_induct)
  case Nil
  show ?case by (simp add: run_Nil seeded_def)
next
  case (snoc op ops)
  then obtain a1 a2 a3 where sh: "classes (run db ops) =
     [\<lparr>c_id = 1, name = ''Yoga'', instructor = ''Alice'',
       schedule = IST_localize 2025 8 22 8 0, capacity = 10, available_slots = a1\<rparr>,
      \<lparr>c_id = 2, name = ''Zumba'', instructor = ''Bob'',
       schedule = IST_localize 2025 8 22 10 0, capacity = 12, available_slots = a2\<rparr>,
      \<lparr>c_id = 3, name = ''HIIT'', instructor = ''Charlie'',
       schedule = IST_localize 2025 8 22 18 0, capacity = 15, available_slots = a3\<rparr>]"
    by blast
  show ?case
  proof (cases op)
    case (ListClasses tz)
    with sh show ?thesis by (simp add: run_snoc get_classes_store)
  next
    case (QueryBookings email)
    with sh show ?thesis by (simp add: run_snoc get_bookings_store)
  next
    case (CreateBooking request clock)
    from book_class_classes [of request clock "run db ops"] show ?thesis
    proof
      assume "classes (snd (book_class request clock (run db ops))) = classes (run db ops)"
      with sh CreateBooking show ?thesis by (simp add: run_snoc)
    next
      assume d: "classes (snd (book_class request clock (run db ops)))
        = decrement_slots (class_id request) (classes (run db ops))"
      show ?thesis
        unfolding run_snoc CreateBooking step.simps d sh
        by (cases "class_id request = 1"; cases "class_id request = 2";
            cases "class_id request = 3") simp_all
    qed
  qed
qed

lemma get_classes_loop_three:
  assumes "astimezone (schedule c1) tz = Some l1" and "astimezone (schedule c2) tz = Some l2"
    and "astimezone (schedule c3) tz = Some l3"
  shows "get_classes_loop tz [c1, c2, c3] = Some [class_view c1 l1, class_view c2 l2, class_view c3 l3]"
  using assms by simp

lemma class_view_rendered:
  assumes "astimezone (schedule c) tz = Some l"
    and "instant l = instant (schedule c)"
    and "(utcoffset l, tzname l) = tz (instant (schedule c))"
    and "year l = 2025 \<and> month l = 8 \<and> 21 \<le> day l \<and> day l \<le> 23
           \<and> 0 \<le> hour l \<and> hour l < 24
           \<and> 0 \<le> minute l \<and> minute l < 60
           \<and> 0 \<le> second l \<and> second l < 60"
  shows "v_id (class_view c l) = c_id c \<and> v_name (class_view c l) = name c
       \<and> v_instructor (class_view c l) = instructor c
       \<and> v_capacity (class_view c l) = capacity c
       \<and> v_available_slots (class_view c l) = available_slots c
       \<and> (\<exists>loc. astimezone (schedule c) tz = Some loc
             \<and> instant loc = instant (schedule c)
             \<and> (utcoffset loc, tzname loc) = tz (instant (schedule c))
             \<and> year loc = 2025 \<and> month loc = 8 \<and> 21 \<le> day loc \<and> day loc \<le> 23
             \<and> 0 \<le> hour loc \<and> hour loc < 24
             \<and> 0 \<le> minute loc \<and> minute loc < 60
             \<and> 0 \<le> second loc \<and> second loc < 60
             \<and> v_schedule (class_view c l) =
                 pad4 (year loc) @ ''-'' @ pad2 (month loc) @ ''-'' @ pad2 (day loc) @ '' '' @
                 pad2 (hour loc) @ '':'' @ pad2 (minute loc) @ '':'' @ pad2 (second loc) @ '' '' @
                 tzname loc @ format_z (utcoffset loc))"
proof -
  have "v_schedule (class_view c l) =
                 pad4 (year l) @ ''-'' @ pad2 (month l) @ ''-'' @ pad2 (day l) @ '' '' @
                 pad2 (hour l) @ '':'' @ pad2 (minute l) @ '':'' @ pad2 (second l) @ '' '' @
                 tzname l @ format_z (utcoffset l)"
    by (simp add: class_view_def strftime_def)
  with assms have "\<exists>loc. astimezone (schedule c) tz = Some loc
             \<and> instant loc = instant (schedule c)
             \<and> (utcoffset loc, tzname loc) = tz (instant (schedule c))
             \<and> year loc = 2025 \<and> month loc = 8 \<and> 21 \<le> day loc \<and> day loc \<le> 23
             \<and> 0 \<le> hour loc \<and> hour loc < 24
             \<and> 0 \<le> minute loc \<and> minute loc < 60
             \<and> 0 \<le> second loc \<and> second loc < 60
             \<and> v_schedule (class_view c l) =
                 pad4 (year loc) @ ''-'' @ pad2 (month loc) @ ''-'' @ pad2 (day loc) @ '' '' @
                 pad2 (hour loc) @ '':'' @ pad2 (minute loc) @ '':'' @ pad2 (second loc) @ '' '' @
                 tzname loc @ format_z (utcoffset loc)"
    by blast
  moreover have "v_id (class_view c l) = c_id c \<and> v_name (class_view c l) = name c
       \<and> v_instructor (class_view c l) = instructor c
       \<and> v_capacity (class_view c l) = capacity c
       \<and> v_available_slots (class_view c l) = available_slots c"
    by (simp add: class_view_def)
  ultimately show ?thesis by blast
qed

text \<open>
  C9. In every reachable state, list-classes with a recognised timezone (whose offsets
  lie within a day, as \<open>datetime\<close> requires of a \<open>tzinfo\<close>) returns one view per class,
  in the order of the class list, with id, name, instructor, capacity and available_slots
  copied. The schedule string is the year, month, day, hour, minute and second of a
  wall-clock reading that denotes the same instant as the stored schedule, at the offset
  the target zone has at that instant, followed by the zone's abbreviation and that
  offset. With a database that maps \<open>UTC\<close> to \<open>pytz.utc\<close>, the three strings are the UTC
  readings 02:30, 04:30 and 12:30 of 22 August 2025, not the stored 08:00, 10:00 and 18:00.
\<close>

theorem list_classes_views:
  "(db timezone = Some tz \<and> (\<forall>t. - 86400 < fst (tz t) \<and> fst (tz t) < 86400) \<longrightarrow>
      (\<exists>views. get_classes db timezone (run db ops) = (Inr views, run db ops)
         \<and> length views = length (classes (run db ops))
         \<and> (\<forall>i<length views.
               v_id (views ! i) = c_id (classes (run db ops) ! i)
             \<and> v_name (views ! i) = name (classes (run db ops) ! i)
             \<and> v_instructor (views ! i) = instructor (classes (run db ops) ! i)
             \<and> v_capacity (views ! i) = capacity (classes (run db ops) ! i)
             \<and> v_available_slots (views ! i) = available_slots (classes (run db ops) ! i)
             \<and> (\<exists>loc. astimezone (schedule (classes (run db ops) ! i)) tz = Some loc
                   \<and> instant loc = instant (schedule (classes (run db ops) ! i))
                   \<and> (utcoffset loc, tzname loc) = tz (instant (schedule (classes (run db ops) ! i)))
                   \<and> year loc = 2025 \<and> month loc = 8 \<and> 21 \<le> day loc \<and> day loc \<le> 23
                   \<and> 0 \<le> hour loc \<and> hour loc < 24
                   \<and> 0 \<le> minute loc \<and> minute loc < 60
                   \<and> 0 \<le> second loc \<and> second loc < 60
                   \<and> v_schedule (views ! i) =
                       pad4 (year loc) @ ''-'' @ pad2 (month loc) @ ''-'' @ pad2 (day loc) @ '' '' @
                       pad2 (hour loc) @ '':'' @ pad2 (minute loc) @ '':'' @ pad2 (second loc) @ '' '' @
                       tzname loc @ format_z (utcoffset loc)))))
   \<and> (db ''UTC'' = Some utc \<longrightarrow>
        (\<exists>views. get_classes db ''UTC'' (run db ops) = (Inr views, run db ops)
           \<and> map v_schedule views =
               [''2025-08-22 02:30:00 UTC+0000'', ''2025-08-22 04:30:00 UTC+0000'',
                ''2025-08-22 12:30:00 UTC+0000'']))"
proof -
  from run_classes_shape [of db ops] obtain a1 a2 a3 where sh: "classes (run db ops) =
     [\<lparr>c_id = 1, name = ''Yoga'', instructor = ''Alice'',
       schedule = IST_localize 2025 8 22 8 0, capacity = 10, available_slots = a1\<rparr>,
      \<lparr>c_id = 2, name = ''Zumba'', instructor = ''Bob'',
       schedule = IST_localize 2025 8 22 10 0, capacity = 12, available_slots = a2\<rparr>,
      \<lparr>c_id = 3, name = ''HIIT'', instructor = ''Charlie'',
       schedule = IST_localize 2025 8 22 18 0, capacity = 15, available_slots = a3\<rparr>]"
    by blast
  define c1 where "c1 = \<lparr>c_id = 1, name = ''Yoga'', instructor = ''Alice'',
       schedule = IST_localize 2025 8 22 8 0, capacity = 10, available_slots = a1\<rparr>"
  define c2 where "c2 = \<lparr>c_id = 2, name = ''Zumba'', instructor = ''Bob'',
       schedule = IST_localize 2025 8 22 10 0, capacity = 12, available_slots = a2\<rparr>"
  define c3 where "c3 = \<lparr>c_id = 3, name = ''HIIT'', instructor = ''Charlie'',
       schedule = IST_localize 2025 8 22 18 0, capacity = 15, available_slots = a3\<rparr>"
  have cs: "classes (run db ops) = [c1, c2, c3]" by (simp add: sh c1_def c2_def c3_def)
  have sc: "schedule c1 = IST_localize 2025 8 22 8 0" "schedule c2 = IST_localize 2025 8 22 10 0"
    "schedule c3 = IST_localize 2025 8 22 18 0"
    by (simp_all add: c1_def c2_def c3_def)
  let ?P = "\<lambda>tz c v. v_id v = c_id c \<and> v_name v = name c
       \<and> v_instructor v = instructor c
       \<and> v_capacity v = capacity c
       \<and> v_available_slots v = available_slots c
       \<and> (\<exists>loc. astimezone (schedule c) tz = Some loc
             \<and> instant loc = instant (schedule c)
             \<and> (utcoffset loc, tzname loc) = tz (instant (schedule c))
             \<and> year loc = 2025 \<and> month loc = 8 \<and> 21 \<le> day loc \<and> day loc \<le> 23
             \<and> 0 \<le> hour loc \<and> hour loc < 24
             \<and> 0 \<le> minute loc \<and> minute loc < 60
             \<and> 0 \<le> second loc \<and> second loc < 60
             \<and> v_schedule v =
                 pad4 (year loc) @ ''-'' @ pad2 (month loc) @ ''-'' @ pad2 (day loc) @ '' '' @
                 pad2 (hour loc) @ '':'' @ pad2 (minute loc) @ '':'' @ pad2 (second loc) @ '' '' @
                 tzname loc @ format_z (utcoffset loc))"
  have part1: "\<exists>views. get_classes db timezone (run db ops) = (Inr views, run db ops)
         \<and> length views = length (classes (run db ops))
         \<and> (\<forall>i<length views. ?P tz (classes (run db ops) ! i) (views ! i))"
    if db: "db timezone = Some tz" and tz: "\<forall>t. - 86400 < fst (tz t) \<and> fst (tz t) < 86400"
  proof -
    from astimezone_seeded [OF tz, of 8] obtain l1 where
      l1: "astimezone (schedule c1) tz = Some l1" "instant l1 = instant (schedule c1)"
        "(utcoffset l1, tzname l1) = tz (instant (schedule c1))"
        "year l1 = 2025 \<and> month l1 = 8 \<and> 21 \<le> day l1 \<and> day l1 \<le> 23
           \<and> 0 \<le> hour l1 \<and> hour l1 < 24 \<and> 0 \<le> minute l1 \<and> minute l1 < 60
           \<and> 0 \<le> second l1 \<and> second l1 < 60"
      unfolding sc by blast
    from astimezone_seeded [OF tz, of 10] obtain l2 where
      l2: "astimezone (schedule c2) tz = Some l2" "instant l2 = instant (schedule c2)"
        "(utcoffset l2, tzname l2) = tz (instant (schedule c2))"
        "year l2 = 2025 \<and> month l2 = 8 \<and> 21 \<le> day l2 \<and> day l2 \<le> 23
           \<and> 0 \<le> hour l2 \<and> hour l2 < 24 \<and> 0 \<le> minute l2 \<and> minute l2 < 60
           \<and> 0 \<le> second l2 \<and> second l2 < 60"
      unfolding sc by blast
    from astimezone_seeded [OF tz, of 18] obtain l3 where
      l3: "astimezone (schedule c3) tz = Some l3" "instant l3 = instant (schedule c3)"
        "(utcoffset l3, tzname l3) = tz (instant (schedule c3))"
        "year l3 = 2025 \<and> month l3 = 8 \<and> 21 \<le> day l3 \<and> day l3 \<le> 23
           \<and> 0 \<le> hour l3 \<and> hour l3 < 24 \<and> 0 \<le> minute l3 \<and> minute l3 < 60
           \<and> 0 \<le> second l3 \<and> second l3 < 60"
      unfolding sc by blast
    define views where "views = [class_view c1 l1, class_view c2 l2, class_view c3 l3]"
    from get_classes_loop_three [OF l1(1) l2(1) l3(1)]
    have g: "get_classes db timezone (run db ops) = (Inr views, run db ops)"
      by (simp add: get_classes_def db cs views_def)
    have len: "length views = length (classes (run db ops))" by (simp add: views_def cs)
    have p1: "?P tz c1 (class_view c1 l1)" by (rule class_view_rendered [OF l1])
    have p2: "?P tz c2 (class_view c2 l2)" by (rule class_view_rendered [OF l2])
    have p3: "?P tz c3 (class_view c3 l3)" by (rule class_view_rendered [OF l3])
    have "\<forall>i<length views. ?P tz (classes (run db ops) ! i) (views ! i)"
    proof (intro allI impI)
      fix i assume "i < length views"
      then have "i = 0 \<or> i = 1 \<or> i = 2" by (auto simp: views_def)
      then show "?P tz (classes (run db ops) ! i) (views ! i)"
      proof (elim disjE)
        assume "i = 0" with p1 show ?thesis by (simp only: cs views_def nth_Cons_0)
      next
        assume "i = 1" with p2 show ?thesis by (simp only: cs views_def nth_Cons_0 One_nat_def nth_Cons_Suc)
      next
        assume "i = 2" 
        then have "[c1, c2, c3] ! i = c3" "[class_view c1 l1, class_view c2 l2, class_view c3 l3] ! i = class_view c3 l3" by simp_all
        with p3 show ?thesis by (simp only: cs views_def)
      qed
    qed
    with g len show ?thesis by blast
  qed
  have part2: "\<exists>views. get_classes db ''UTC'' (run db ops) = (Inr views, run db ops)
           \<and> map v_schedule views =
               [''2025-08-22 02:30:00 UTC+0000'', ''2025-08-22 04:30:00 UTC+0000'',
                ''2025-08-22 12:30:00 UTC+0000'']"
    if db: "db ''UTC'' = Some utc"
  proof -
    from seeded_in_utc obtain l1 l2 l3 where
      l: "astimezone (schedule c1) utc = Some l1" "strftime l1 = ''2025-08-22 02:30:00 UTC+0000''"
         "astimezone (schedule c2) utc = Some l2" "strftime l2 = ''2025-08-22 04:30:00 UTC+0000''"
         "astimezone (schedule c3) utc = Some l3" "strftime l3 = ''2025-08-22 12:30:00 UTC+0000''"
      unfolding sc by blast
    from get_classes_loop_three [OF l(1) l(3) l(5)]
    have g: "get_classes db ''UTC'' (run db ops)
        = (Inr [class_view c1 l1, class_view c2 l2, class_view c3 l3], run db ops)"
      by (simp add: get_classes_def db cs)
    have m: "map v_schedule [class_view c1 l1, class_view c2 l2, class_view c3 l3] =
               [''2025-08-22 02:30:00 UTC+0000'', ''2025-08-22 04:30:00 UTC+0000'',
                ''2025-08-22 12:30:00 UTC+0000'']"
      by (simp add: class_view_def l)
    show ?thesis
      by (rule exI [of _ "[class_view c1 l1, class_view c2 l2, class_view c3 l3]"])
         (rule conjI, rule g, rule m)
  qed
  from part1 part2 show ?thesis by blast
qed

theorem list_classes_views_witness:
  "sample_tzdb ''Asia/Kolkata'' = Some ist
   \<and> (\<forall>t. - 86400 < fst (ist t) \<and> fst (ist t) < 86400)
   \<and> (\<exists>views. get_classes sample_tzdb ''Asia/Kolkata'' (run sample_tzdb sample_ops)
          = (Inr views, run sample_tzdb sample_ops)
        \<and> length views = length (classes (run sample_tzdb sample_ops))
        \<and> map v_available_slots views = [9, 11, 15]
        \<and> map v_schedule views =
            [''2025-08-22 08:00:00 IST+0530'', ''2025-08-22 10:00:00 IST+0530'',
             ''2025-08-22 18:00:00 IST+0530''])
   \<and> sample_tzdb ''UTC'' = Some utc
   \<and> (\<exists>views. get_classes sample_tzdb ''UTC'' (run sample_tzdb sample_ops)
          = (Inr views, run sample_tzdb sample_ops)
        \<and> map v_schedule views =
            [''2025-08-22 02:30:00 UTC+0000'', ''2025-08-22 04:30:00 UTC+0000'',
             ''2025-08-22 12:30:00 UTC+0000''])"
proof -
  have h1: "sample_tzdb ''Asia/Kolkata'' = Some ist" by (simp add: sample_tzdb_def)
  have h2: "\<forall>t. - 86400 < fst (ist t) \<and> fst (ist t) < 86400" by (simp add: ist_def)
  have h3: "sample_tzdb ''UTC'' = Some utc" by (simp add: sample_tzdb_def)
  note t = list_classes_views [of sample_tzdb "''Asia/Kolkata''" ist sample_ops]
  from t h1 h2 obtain views where
    v: "get_classes sample_tzdb ''Asia/Kolkata'' (run sample_tzdb sample_ops)
          = (Inr views, run sample_tzdb sample_ops)"
       "length views = length (classes (run sample_tzdb sample_ops))"
    by blast
  have e: "fst (get_classes sample_tzdb ''Asia/Kolkata'' (run sample_tzdb sample_ops))
     = Inr [\<lparr>v_id = 1, v_name = ''Yoga'', v_instructor = ''Alice'',
         v_schedule = ''2025-08-22 08:00:00 IST+0530'', v_capacity = 10,
         v_available_slots = 9\<rparr>,
      \<lparr>v_id = 2, v_name = ''Zumba'', v_instructor = ''Bob'',
         v_schedule = ''2025-08-22 10:00:00 IST+0530'', v_capacity = 12,
         v_available_slots = 11\<rparr>,
      \<lparr>v_id = 3, v_name = ''HIIT'', v_instructor = ''Charlie'',
         v_schedule = ''2025-08-22 18:00:00 IST+0530'', v_capacity = 15,
         v_available_slots = 15\<rparr>]"
    by code_simp
  from v(1) e have m: "map v_available_slots views = [9, 11, 15]"
    "map v_schedule views =
            [''2025-08-22 08:00:00 IST+0530'', ''2025-08-22 10:00:00 IST+0530'',
             ''2025-08-22 18:00:00 IST+0530'']"
    by simp_all
  have p1: "\<exists>views. get_classes sample_tzdb ''Asia/Kolkata'' (run sample_tzdb sample_ops)
          = (Inr views, run sample_tzdb sample_ops)
        \<and> length views = length (classes (run sample_tzdb sample_ops))
        \<and> map v_available_slots views = [9, 11, 15]
        \<and> map v_schedule views =
            [''2025-08-22 08:00:00 IST+0530'', ''2025-08-22 10:00:00 IST+0530'',
             ''2025-08-22 18:00:00 IST+0530'']"
    by (rule exI [of _ views]) (intro conjI v m)
  from t h3 have p2: "\<exists>views. get_classes sample_tzdb ''UTC'' (run sample_tzdb sample_ops)
          = (Inr views, run sample_tzdb sample_ops)
        \<and> map v_schedule views =
            [''2025-08-22 02:30:00 UTC+0000'', ''2025-08-22 04:30:00 UTC+0000'',
             ''2025-08-22 12:30:00 UTC+0000'']"
    by (elim conjE) (erule mp)
  show ?thesis by (intro conjI h1 h2 h3 p1 p2)
qed

end
